theory Spec2Isabelle
  imports Main "HOL-Library.Word"
begin

section \<open>The Spawner base class (client/spawner.h)\<close>

text \<open>
  \<^verbatim>\<open>class Spawner\<close> is the abstract base of the process spawners of the goma client.
  The header holds everything that is not platform code: the two enumerations, the
  constant \<^verbatim>\<open>kInvalidPid\<close>, the member fields with their initial values, and the four
  configuration setters, which are defined inline. \<^verbatim>\<open>Run\<close>, \<^verbatim>\<open>Kill\<close>, \<^verbatim>\<open>Wait\<close> and
  the queries are pure virtual: the header gives their signatures and the comments that
  document them, and no body.
\<close>

subsection \<open>Enumerations and constants\<close>

datatype WaitPolicy = NO_HANG | WAIT_INFINITE | NEED_KILL

datatype ConsoleOutputOption = MERGE_STDOUT_STDERR | STDOUT_ONLY

text \<open>
  The header is compiled either with \<^verbatim>\<open>_WIN32\<close> defined or without it; the platform is
  the one build-time parameter of the class.
\<close>

datatype platform = Windows | Posix

text \<open>
  \<^verbatim>\<open>#ifdef _WIN32  static const int kInvalidPid = 0;
  #else          static const int kInvalidPid = -1;\<close>
\<close>

fun kInvalidPid :: "platform \<Rightarrow> int" where
  "kInvalidPid Windows = 0"
| "kInvalidPid Posix = - 1"

subsection \<open>Member fields\<close>

text \<open>
  \<^verbatim>\<open>string* console_output_\<close> is a pointer the Spawner does not own: it is either
  \<^verbatim>\<open>NULL\<close> or the address of a caller's string.
\<close>

datatype string_ptr = NULL | Addr nat

type_synonym int32_t = "32 word"

text \<open>
  The fields of the class, in the order of their declaration. Isabelle reserves names
  that end in an underscore, so each field drops the trailing underscore of its C++ name.
\<close>

record spawner =
  stdin_filename :: string
  stdout_filename :: string
  stderr_filename :: string
  console_output :: string_ptr
  detach :: bool
  umask :: int32_t
  console_output_option :: ConsoleOutputOption

subsection \<open>The constructor\<close>

text \<open>
  \<^verbatim>\<open>Spawner() : console_output_(NULL), detach_(false), umask_(-1),
              console_output_option_(MERGE_STDOUT_STDERR) {}\<close>
  The three \<^verbatim>\<open>std::string\<close> members are not named in the initialiser list, so each is
  default-constructed: the empty string.
\<close>

definition Spawner :: spawner where
  "Spawner =
     \<lparr> stdin_filename = [],
       stdout_filename = [],
       stderr_filename = [],
       console_output = NULL,
       detach = False,
       umask = - 1,
       console_output_option = MERGE_STDOUT_STDERR \<rparr>"

subsection \<open>The configuration setters\<close>

text \<open>
  Each setter is a \<^verbatim>\<open>void\<close> member function whose body is a list of assignments: it
  has no condition, no assertion and no way to fail. The model takes the object and
  returns the object after the assignments.
\<close>

definition SetFileRedirection ::
  "string \<Rightarrow> string \<Rightarrow> string \<Rightarrow> ConsoleOutputOption \<Rightarrow> spawner \<Rightarrow> spawner" where
  "SetFileRedirection stdin_fn stdout_fn stderr_fn option s =
     s\<lparr> stdin_filename := stdin_fn,
        stdout_filename := stdout_fn,
        stderr_filename := stderr_fn,
        console_output_option := option \<rparr>"

definition SetConsoleOutputBuffer ::
  "string_ptr \<Rightarrow> ConsoleOutputOption \<Rightarrow> spawner \<Rightarrow> spawner" where
  "SetConsoleOutputBuffer buffer option s =
     s\<lparr> console_output := buffer, console_output_option := option \<rparr>"

definition SetDetach :: "bool \<Rightarrow> spawner \<Rightarrow> spawner" where
  "SetDetach d s = s\<lparr> detach := d \<rparr>"

definition SetUmask :: "int32_t \<Rightarrow> spawner \<Rightarrow> spawner" where
  "SetUmask u s = s\<lparr> umask := u \<rparr>"

text \<open>
  A caller configures one instance by a sequence of setter calls before \<^verbatim>\<open>Run\<close>.
\<close>

datatype config_call =
    CallSetFileRedirection string string string ConsoleOutputOption
  | CallSetConsoleOutputBuffer string_ptr ConsoleOutputOption
  | CallSetDetach bool
  | CallSetUmask int32_t

fun apply_call :: "config_call \<Rightarrow> spawner \<Rightarrow> spawner" where
  "apply_call (CallSetFileRedirection a b c option) s = SetFileRedirection a b c option s"
| "apply_call (CallSetConsoleOutputBuffer p option) s = SetConsoleOutputBuffer p option s"
| "apply_call (CallSetDetach d) s = SetDetach d s"
| "apply_call (CallSetUmask u) s = SetUmask u s"

fun configure :: "config_call list \<Rightarrow> spawner \<Rightarrow> spawner" where
  "configure [] s = s"
| "configure (c # cs) s = configure cs (apply_call c s)"

text \<open>The two setters that configure redirection, as opposed to the other two.\<close>

fun redirection_call :: "config_call \<Rightarrow> bool" where
  "redirection_call (CallSetFileRedirection a b c option) = True"
| "redirection_call (CallSetConsoleOutputBuffer p option) = True"
| "redirection_call (CallSetDetach d) = False"
| "redirection_call (CallSetUmask u) = False"

text \<open>
  What the configuration asks of \<^verbatim>\<open>Run\<close>, as the comments of the setters define it:
  a filename that is not empty is used as the stream of the child, and a console output
  buffer is in use when the pointer is set.
\<close>

definition file_redirection_configured :: "spawner \<Rightarrow> bool" where
  "file_redirection_configured s =
     (stdin_filename s \<noteq> [] \<or> stdout_filename s \<noteq> [] \<or> stderr_filename s \<noteq> [])"

definition buffer_redirection_configured :: "spawner \<Rightarrow> bool" where
  "buffer_redirection_configured s = (console_output s \<noteq> NULL)"

section \<open>The lifecycle of the spawned process\<close>

text \<open>
  Modelled from the spec: the lifecycle state machine of section 4.3 and the operations
  \<^verbatim>\<open>Kill\<close>, \<^verbatim>\<open>Wait\<close>, \<^verbatim>\<open>IsChildRunning\<close>, \<^verbatim>\<open>IsSignaled\<close>, \<^verbatim>\<open>SetSignaled\<close>,
  \<^verbatim>\<open>ChildStatus\<close>, \<^verbatim>\<open>ChildMemKb\<close> and \<^verbatim>\<open>ChildTermSignal\<close> of section 4.2. spawner.h
  declares all of them pure virtual; the backends that implement them are missing from
  the sources. The states are those the spec lists: Unstarted, Running, and the three
  terminal states Exited, Killed and Signaled.
\<close>

datatype ProcessState = Unstarted | Running | Exited | Killed | Signaled

text \<open>
  Modelled from the spec: the terminal states named in section 4.3 (Exited, Killed,
  Signaled); the backends that hold the state are missing from the sources.
\<close>

fun terminal :: "ProcessState \<Rightarrow> bool" where
  "terminal Exited = True"
| "terminal Killed = True"
| "terminal Signaled = True"
| "terminal Unstarted = False"
| "terminal Running = False"

text \<open>
  Modelled from the spec: the transitions listed in section 4.3, and no other; the
  backends that perform them are missing from the sources.
\<close>

fun transition :: "ProcessState \<Rightarrow> ProcessState \<Rightarrow> bool" where
  "transition Unstarted Running = True"
| "transition Running Exited = True"
| "transition Running Killed = True"
| "transition Running Signaled = True"
| "transition s s' = False"

text \<open>
  Modelled from the spec: the three ways a child ends, one for each terminal state of
  section 4.3: it calls normal termination with an exit code, the kill requested by
  \<^verbatim>\<open>Kill\<close> or \<^verbatim>\<open>Wait(NEED_KILL)\<close> terminates it, or an uncaught signal or fault does.
  The operating system decides which; the backends that read it are missing from the
  sources.
\<close>

datatype exit_cause = NormalExit int | KilledByRequest | UncaughtSignal int

text \<open>
  Modelled from the spec: what the operating system knows of the child at the moment of
  a call, which is the input of the missing backends. The child has terminated already
  (whether or not the Spawner has observed it), or it is alive; for an alive child the
  view also says how it ends if it is left alone and waited for (\<open>None\<close>: it never
  does), which is what a blocking wait collects. The peak memory is best-effort (section
  3): \<open>None\<close> when the platform does not provide it.
\<close>

datatype child_status = ChildAlive "exit_cause option" | ChildTerminated exit_cause

record child_view =
  status :: child_status
  peak_kb :: "int option"

fun alive :: "child_status \<Rightarrow> bool" where
  "alive (ChildAlive fate) = True"
| "alive (ChildTerminated t) = False"

text \<open>
  Modelled from the spec: the handle of section 3, the ProcessState with the ExitOutcome
  it caches and the signaled mark of section 4.2. Before termination is observed the
  exit code and the signal hold a placeholder; the peak memory is -1 when it is not
  available. The backends' own fields are missing from the sources.
\<close>

record ProcessHandle =
  state :: ProcessState
  signaled :: bool
  exit_code :: int
  terminating_signal :: int
  peak_memory_kb :: int

text \<open>
  Modelled from the spec: the handle and the operating system agree when a handle in a
  terminal state (the child has been reaped) goes with a child that is not alive.
\<close>

definition agrees :: "child_view \<Rightarrow> ProcessHandle \<Rightarrow> bool" where
  "agrees v h = (if terminal (state h) then alive (status v) = False else True)"

text \<open>
  Modelled from the spec: \<^verbatim>\<open>IsSignaled\<close> and \<^verbatim>\<open>SetSignaled\<close> (section 4.2), whose bodies
  are missing from the sources. They track whether the termination was attributed to a
  signal; SetSignaled records it out of band.
\<close>

definition IsSignaled :: "ProcessHandle \<Rightarrow> bool" where
  "IsSignaled h = signaled h"

definition SetSignaled :: "ProcessHandle \<Rightarrow> ProcessHandle" where
  "SetSignaled h = h\<lparr> signaled := True \<rparr>"

text \<open>
  Modelled from the spec: reaping, the one way out of Running (section 4.3: no
  transition leaves Running without the backend having reaped the child). Running to
  Exited: ChildStatus holds the code. Running to Killed: the kill terminated the child.
  Running to Signaled: SetSignaled marks it and ChildTermSignal holds the cause. The
  peak memory is cached as reported, -1 when unavailable. The backends that reap are
  missing from the sources.
\<close>

fun reap :: "exit_cause \<Rightarrow> int option \<Rightarrow> ProcessHandle \<Rightarrow> ProcessHandle" where
  "reap (NormalExit code) mem h =
     h\<lparr> state := Exited, exit_code := code,
        peak_memory_kb := (case mem of Some m \<Rightarrow> m | None \<Rightarrow> - 1) \<rparr>"
| "reap KilledByRequest mem h =
     h\<lparr> state := Killed,
        peak_memory_kb := (case mem of Some m \<Rightarrow> m | None \<Rightarrow> - 1) \<rparr>"
| "reap (UncaughtSignal sig) mem h =
     SetSignaled
       (h\<lparr> state := Signaled, terminating_signal := sig,
           peak_memory_kb := (case mem of Some m \<Rightarrow> m | None \<Rightarrow> - 1) \<rparr>)"

text \<open>
  Modelled from the spec: \<^verbatim>\<open>Kill\<close>, whose body is missing from the sources. Section 4.2:
  it requests termination of the child if running, returns true if the process was still
  running at the time of the call (a termination request was actually issued) and false
  if it had already terminated; on an already-terminated process it is a no-op. Kill
  only requests: the handle stays as it is, and the state becomes Killed when the
  terminated child is reaped.
\<close>

definition Kill :: "child_view \<Rightarrow> ProcessHandle \<Rightarrow> bool \<times> ProcessHandle" where
  "Kill v h = (if state h = Running \<and> alive (status v) then (True, h) else (False, h))"

text \<open>
  Modelled from the spec: \<^verbatim>\<open>IsChildRunning\<close>, whose body is missing from the sources.
  Section 4.2: a non-blocking liveness query that reconciles with the reap state of the
  operating system, and one of the two calls that observe termination. On a Running
  handle whose child has terminated it reaps the child and answers false.
\<close>

definition IsChildRunning :: "child_view \<Rightarrow> ProcessHandle \<Rightarrow> bool \<times> ProcessHandle" where
  "IsChildRunning v h =
     (if state h = Running then
        (case status v of
           ChildAlive fate \<Rightarrow> (True, h)
         | ChildTerminated t \<Rightarrow> (False, reap t (peak_kb v) h))
      else (False, h))"

text \<open>
  A call returns to its caller, or blocks for ever, or is a call for which the spec
  gives no behaviour.
\<close>

datatype 'a outcome = Returns 'a | NeverReturns | NotSpecified

text \<open>
  Modelled from the spec: \<^verbatim>\<open>Wait\<close>, whose body is missing from the sources. Section 4.2:
  it returns true if the process is still running after the call and false if
  terminated. NO_HANG polls without blocking; WAIT_INFINITE blocks until the child
  terminates; NEED_KILL, if the child is still running, issues a kill request and blocks
  until termination. Section 4.3: on a terminal handle nothing blocks. For an instance
  that has not run the spec gives no behaviour.
\<close>

definition Wait ::
  "WaitPolicy \<Rightarrow> child_view \<Rightarrow> ProcessHandle \<Rightarrow> (bool \<times> ProcessHandle) outcome" where
  "Wait policy v h =
     (if terminal (state h) then Returns (False, h)
      else if state h = Unstarted then NotSpecified
      else
        (case status v of
           ChildTerminated t \<Rightarrow> Returns (False, reap t (peak_kb v) h)
         | ChildAlive fate \<Rightarrow>
             (case policy of
                NO_HANG \<Rightarrow> Returns (True, h)
              | WAIT_INFINITE \<Rightarrow>
                  (case fate of
                     None \<Rightarrow> NeverReturns
                   | Some t \<Rightarrow> Returns (False, reap t (peak_kb v) h))
              | NEED_KILL \<Rightarrow> Returns (False, reap KilledByRequest (peak_kb v) h))))"

text \<open>
  Modelled from the spec: the remaining queries of section 4.2, whose bodies are missing
  from the sources. Each returns what the handle holds.
\<close>

definition ChildStatus :: "ProcessHandle \<Rightarrow> int" where
  "ChildStatus h = exit_code h"

definition ChildMemKb :: "ProcessHandle \<Rightarrow> int" where
  "ChildMemKb h = peak_memory_kb h"

definition ChildTermSignal :: "ProcessHandle \<Rightarrow> int" where
  "ChildTermSignal h = terminating_signal h"

text \<open>
  Modelled from the spec: the operations a caller has after Run (section 4.2), and a
  caller that makes a sequence of them, each at its own moment, with the view the
  operating system has of the child at that moment. The sequence stops at a call that
  does not return.
\<close>

datatype operation =
    OpKill
  | OpWait WaitPolicy
  | OpIsChildRunning
  | OpIsSignaled
  | OpSetSignaled
  | OpChildStatus
  | OpChildMemKb
  | OpChildTermSignal

datatype answer = BoolAnswer bool | IntAnswer int | NoAnswer

fun perform :: "operation \<Rightarrow> child_view \<Rightarrow> ProcessHandle \<Rightarrow> (answer \<times> ProcessHandle) outcome"
  where
  "perform OpKill v h = Returns (BoolAnswer (fst (Kill v h)), snd (Kill v h))"
| "perform (OpWait policy) v h =
     (case Wait policy v h of
        Returns (b, h') \<Rightarrow> Returns (BoolAnswer b, h')
      | NeverReturns \<Rightarrow> NeverReturns
      | NotSpecified \<Rightarrow> NotSpecified)"
| "perform OpIsChildRunning v h =
     Returns (BoolAnswer (fst (IsChildRunning v h)), snd (IsChildRunning v h))"
| "perform OpIsSignaled v h = Returns (BoolAnswer (IsSignaled h), h)"
| "perform OpSetSignaled v h = Returns (NoAnswer, SetSignaled h)"
| "perform OpChildStatus v h = Returns (IntAnswer (ChildStatus h), h)"
| "perform OpChildMemKb v h = Returns (IntAnswer (ChildMemKb h), h)"
| "perform OpChildTermSignal v h = Returns (IntAnswer (ChildTermSignal h), h)"

fun perform_all ::
  "(operation \<times> child_view) list \<Rightarrow> ProcessHandle \<Rightarrow> ProcessHandle outcome" where
  "perform_all [] h = Returns h"
| "perform_all ((op, v) # rest) h =
     (case perform op v h of
        Returns (a, h') \<Rightarrow> perform_all rest h'
      | NeverReturns \<Rightarrow> NeverReturns
      | NotSpecified \<Rightarrow> NotSpecified)"

text \<open>
  Modelled from the spec: the handle \<open>h\<close> with the signaled mark set if one of the
  calls is SetSignaled, and as it is otherwise.
\<close>

definition marked :: "(operation \<times> child_view) list \<Rightarrow> ProcessHandle \<Rightarrow> ProcessHandle" where
  "marked calls h = (if OpSetSignaled \<in> fst ` set calls then SetSignaled h else h)"

section \<open>Properties of the constructor and the setters\<close>

lemma kInvalidPid_values: "kInvalidPid Windows = 0 \<and> kInvalidPid Posix = - 1"
  by simp

lemma kInvalidPid_differ: "kInvalidPid Windows \<noteq> kInvalidPid Posix"
  by simp

lemma SetDetach_frame:
  "SetDetach d s = s\<lparr> detach := d \<rparr> \<and> detach (SetDetach d s) = d \<and>
   umask (SetDetach d s) = umask s \<and> console_output (SetDetach d s) = console_output s"
  by (simp add: SetDetach_def)

lemma SetUmask_stores:
  "umask (SetUmask u s) = u \<and> detach (SetUmask u s) = detach s \<and>
   console_output (SetUmask u s) = console_output s \<and>
   console_output_option (SetUmask u s) = console_output_option s"
  by (simp add: SetUmask_def)

text \<open>
  C10. A freshly constructed Spawner, before any configuration call, has a NULL console
  output buffer pointer, a false detach flag, umask -1 (as the 32-bit field holds it and
  as its signed reading), the console output option MERGE_STDOUT_STDERR, and three empty
  redirection filenames, so that no stream is redirected by default.
\<close>

theorem Spawner_initial_fields:
  "console_output Spawner = NULL \<and>
   detach Spawner = False \<and>
   umask Spawner = - 1 \<and> sint (umask Spawner) = - 1 \<and>
   console_output_option Spawner = MERGE_STDOUT_STDERR \<and>
   stdin_filename Spawner = [] \<and>
   stdout_filename Spawner = [] \<and>
   stderr_filename Spawner = [] \<and>
   \<not> file_redirection_configured Spawner \<and>
   \<not> buffer_redirection_configured Spawner"
  by (simp add: Spawner_def file_redirection_configured_def buffer_redirection_configured_def)

theorem Spawner_initial_fields_witness:
  "stdout_filename Spawner = [] \<and> sint (umask Spawner) = - 1 \<and>
   \<not> file_redirection_configured Spawner"
  using Spawner_initial_fields by simp

text \<open>
  C9. SetFileRedirection writes the three filenames and the console output option and
  leaves the buffer pointer, the detach flag and the umask as they were.
  SetConsoleOutputBuffer writes the buffer pointer and the console output option and
  leaves the three filenames, the detach flag and the umask as they were. Neither setter
  clears what the other has set: after both calls, in either order, the filenames and the
  buffer pointer are the ones that were passed.
\<close>

theorem setters_frame:
  "console_output (SetFileRedirection a b c opt s) = console_output s \<and>
   detach (SetFileRedirection a b c opt s) = detach s \<and>
   umask (SetFileRedirection a b c opt s) = umask s \<and>
   stdin_filename (SetFileRedirection a b c opt s) = a \<and>
   stdout_filename (SetFileRedirection a b c opt s) = b \<and>
   stderr_filename (SetFileRedirection a b c opt s) = c \<and>
   console_output_option (SetFileRedirection a b c opt s) = opt \<and>
   stdin_filename (SetConsoleOutputBuffer p opt s) = stdin_filename s \<and>
   stdout_filename (SetConsoleOutputBuffer p opt s) = stdout_filename s \<and>
   stderr_filename (SetConsoleOutputBuffer p opt s) = stderr_filename s \<and>
   detach (SetConsoleOutputBuffer p opt s) = detach s \<and>
   umask (SetConsoleOutputBuffer p opt s) = umask s \<and>
   console_output (SetConsoleOutputBuffer p opt s) = p \<and>
   console_output_option (SetConsoleOutputBuffer p opt s) = opt \<and>
   stdin_filename (SetConsoleOutputBuffer p opt' (SetFileRedirection a b c opt s)) = a \<and>
   stdout_filename (SetConsoleOutputBuffer p opt' (SetFileRedirection a b c opt s)) = b \<and>
   stderr_filename (SetConsoleOutputBuffer p opt' (SetFileRedirection a b c opt s)) = c \<and>
   console_output (SetConsoleOutputBuffer p opt' (SetFileRedirection a b c opt s)) = p \<and>
   stdin_filename (SetFileRedirection a b c opt' (SetConsoleOutputBuffer p opt s)) = a \<and>
   stdout_filename (SetFileRedirection a b c opt' (SetConsoleOutputBuffer p opt s)) = b \<and>
   stderr_filename (SetFileRedirection a b c opt' (SetConsoleOutputBuffer p opt s)) = c \<and>
   console_output (SetFileRedirection a b c opt' (SetConsoleOutputBuffer p opt s)) = p"
  by (simp add: SetFileRedirection_def SetConsoleOutputBuffer_def)

text \<open>
  C2, as the spec states it: file redirection set after buffer redirection, or the
  other way round, is rejected or flagged before Run, so that the two are never both
  configured when Run executes. The setters have no check. On a fresh Spawner, the calls
  \<^verbatim>\<open>SetConsoleOutputBuffer(&buf, MERGE_STDOUT_STDERR)\<close> and
  \<^verbatim>\<open>SetFileRedirection("in.txt", "out.txt", "err.txt", MERGE_STDOUT_STDERR)\<close>, in either
  order, both go through and leave an object with both kinds of redirection configured.
\<close>

theorem mixed_redirection_counterexample:
  "file_redirection_configured
     (configure
        [CallSetConsoleOutputBuffer (Addr 1) MERGE_STDOUT_STDERR,
         CallSetFileRedirection ''in.txt'' ''out.txt'' ''err.txt'' MERGE_STDOUT_STDERR]
        Spawner) \<and>
   buffer_redirection_configured
     (configure
        [CallSetConsoleOutputBuffer (Addr 1) MERGE_STDOUT_STDERR,
         CallSetFileRedirection ''in.txt'' ''out.txt'' ''err.txt'' MERGE_STDOUT_STDERR]
        Spawner) \<and>
   file_redirection_configured
     (configure
        [CallSetFileRedirection ''in.txt'' ''out.txt'' ''err.txt'' MERGE_STDOUT_STDERR,
         CallSetConsoleOutputBuffer (Addr 1) MERGE_STDOUT_STDERR]
        Spawner) \<and>
   buffer_redirection_configured
     (configure
        [CallSetFileRedirection ''in.txt'' ''out.txt'' ''err.txt'' MERGE_STDOUT_STDERR,
         CallSetConsoleOutputBuffer (Addr 1) MERGE_STDOUT_STDERR]
        Spawner)"
  by (simp add: SetFileRedirection_def SetConsoleOutputBuffer_def Spawner_def
      file_redirection_configured_def buffer_redirection_configured_def)

lemma configure_append: "configure (xs @ ys) s = configure ys (configure xs s)"
  by (induction xs arbitrary: s) simp_all

lemma other_call_keeps_redirection:
  "\<not> redirection_call c \<Longrightarrow>
     stdin_filename (apply_call c s) = stdin_filename s \<and>
     stdout_filename (apply_call c s) = stdout_filename s \<and>
     stderr_filename (apply_call c s) = stderr_filename s \<and>
     console_output (apply_call c s) = console_output s"
  by (cases c) (simp_all add: SetDetach_def SetUmask_def)

lemma other_calls_keep_redirection:
  "\<forall>c \<in> set cs. \<not> redirection_call c \<Longrightarrow>
     stdin_filename (configure cs s) = stdin_filename s \<and>
     stdout_filename (configure cs s) = stdout_filename s \<and>
     stderr_filename (configure cs s) = stderr_filename s \<and>
     console_output (configure cs s) = console_output s"
proof (induction cs arbitrary: s)
  case Nil
  then show ?case by simp
next
  case (Cons c cs)
  then have first: "\<not> redirection_call c" and rest: "\<forall>c \<in> set cs. \<not> redirection_call c"
    by simp_all
  from other_call_keeps_redirection [OF first, of s] Cons.IH [OF rest, of "apply_call c s"]
  show ?case by simp
qed

text \<open>
  C2, amended: the setters check nothing. In every sequence of configuration calls on
  a Spawner, a call of SetFileRedirection with at least one filename that is not empty
  right after a call of SetConsoleOutputBuffer with a buffer that is not NULL, or the two
  calls in the other order, is accepted; unless a later redirection call overwrites one
  of them, both the file redirection and the buffer redirection are configured when Run
  is reached. That the two must not be mixed is an obligation of the caller, which the
  header states in comments only.
\<close>

theorem mixed_redirection_accepted:
  assumes "p \<noteq> NULL" and "a \<noteq> [] \<or> b \<noteq> [] \<or> c \<noteq> []"
    and "\<forall>x \<in> set post. \<not> redirection_call x"
  shows
    "file_redirection_configured
       (configure
          (pre @ [CallSetConsoleOutputBuffer p o1, CallSetFileRedirection a b c o2] @ post) s) \<and>
     buffer_redirection_configured
       (configure
          (pre @ [CallSetConsoleOutputBuffer p o1, CallSetFileRedirection a b c o2] @ post) s) \<and>
     file_redirection_configured
       (configure
          (pre @ [CallSetFileRedirection a b c o2, CallSetConsoleOutputBuffer p o1] @ post) s) \<and>
     buffer_redirection_configured
       (configure
          (pre @ [CallSetFileRedirection a b c o2, CallSetConsoleOutputBuffer p o1] @ post) s)"
  using assms(1,2) other_calls_keep_redirection [OF assms(3)]
  by (simp add: configure_append SetFileRedirection_def SetConsoleOutputBuffer_def
      file_redirection_configured_def buffer_redirection_configured_def)

theorem mixed_redirection_accepted_witness:
  "Addr 7 \<noteq> NULL \<and> ''log'' \<noteq> [] \<and>
   file_redirection_configured
     (configure
        [CallSetDetach True,
         CallSetConsoleOutputBuffer (Addr 7) STDOUT_ONLY,
         CallSetFileRedirection [] ''log'' [] STDOUT_ONLY,
         CallSetUmask 18]
        Spawner) \<and>
   buffer_redirection_configured
     (configure
        [CallSetDetach True,
         CallSetFileRedirection [] ''log'' [] STDOUT_ONLY,
         CallSetConsoleOutputBuffer (Addr 7) STDOUT_ONLY,
         CallSetUmask 18]
        Spawner)"
proof -
  have buffer: "Addr 7 \<noteq> NULL"
    by simp
  have name: "[] \<noteq> ([] :: string) \<or> ''log'' \<noteq> [] \<or> [] \<noteq> ([] :: string)"
    by simp
  have post: "\<forall>x \<in> set [CallSetUmask 18]. \<not> redirection_call x"
    by simp
  from mixed_redirection_accepted
    [OF buffer name post, of "[CallSetDetach True]" STDOUT_ONLY STDOUT_ONLY Spawner]
  show ?thesis
    by simp
qed

section \<open>Properties of the lifecycle\<close>

lemma terminal_not_Running: "terminal s \<Longrightarrow> s \<noteq> Running"
  by (cases s) simp_all

lemma started_Running: "\<not> terminal s \<Longrightarrow> s \<noteq> Unstarted \<Longrightarrow> s = Running"
  by (cases s) simp_all

lemma Kill_terminal: "terminal (state h) \<Longrightarrow> Kill v h = (False, h)"
  by (simp add: Kill_def terminal_not_Running)

lemma agrees_Kill:
  "agrees v h \<Longrightarrow> state h \<noteq> Unstarted \<Longrightarrow> fst (Kill v h) = alive (status v)"
  by (cases "state h") (auto simp add: agrees_def Kill_def)

text \<open>
  C3. Kill returns true if and only if the child was still running at the time of the
  call: the handle is Running and the operating system has the child alive, and for an
  instance that has run and agrees with the operating system this is exactly that the
  child is alive. Kill only requests termination and leaves the handle as it is. On a
  process that has already terminated (the handle is terminal, or the operating system
  has the child terminated) it is a no-op that returns false; so a second consecutive
  Kill, made when the child has terminated, changes nothing and returns false. Kill on
  an instance that has not run returns false.
\<close>

theorem Kill_return_value:
  "fst (Kill v h) = (state h = Running \<and> alive (status v)) \<and>
   snd (Kill v h) = h \<and>
   (agrees v h \<and> state h \<noteq> Unstarted \<longrightarrow> fst (Kill v h) = alive (status v)) \<and>
   (terminal (state h) \<or> \<not> alive (status v) \<longrightarrow> Kill v h = (False, h)) \<and>
   (\<not> alive (status v') \<longrightarrow> Kill v' (snd (Kill v h)) = (False, snd (Kill v h))) \<and>
   (state h = Unstarted \<longrightarrow> Kill v h = (False, h))"
proof (intro conjI impI)
  show "fst (Kill v h) = (state h = Running \<and> alive (status v))"
    by (simp add: Kill_def)
  show same: "snd (Kill v h) = h"
    by (simp add: Kill_def)
  show "Kill v' (snd (Kill v h)) = (False, snd (Kill v h))" if "\<not> alive (status v')"
    using that by (simp add: same) (simp add: Kill_def)
  show "fst (Kill v h) = alive (status v)" if "agrees v h \<and> state h \<noteq> Unstarted"
    using that agrees_Kill by blast
  show "Kill v h = (False, h)" if "terminal (state h) \<or> \<not> alive (status v)"
    using that by (auto simp add: Kill_def dest: terminal_not_Running)
  show "Kill v h = (False, h)" if "state h = Unstarted"
    using that by (simp add: Kill_def)
qed

theorem Kill_return_value_witness:
  "fst (Kill \<lparr> status = ChildAlive None, peak_kb = None \<rparr>
         \<lparr> state = Running, signaled = False, exit_code = 0, terminating_signal = 0,
           peak_memory_kb = - 1 \<rparr>) \<and>
   fst (Kill \<lparr> status = ChildAlive None, peak_kb = None \<rparr>
         (snd (Kill \<lparr> status = ChildAlive None, peak_kb = None \<rparr>
            \<lparr> state = Running, signaled = False, exit_code = 0, terminating_signal = 0,
              peak_memory_kb = - 1 \<rparr>))) \<and>
   Kill \<lparr> status = ChildTerminated KilledByRequest, peak_kb = None \<rparr>
     (snd (Kill \<lparr> status = ChildAlive None, peak_kb = None \<rparr>
        \<lparr> state = Running, signaled = False, exit_code = 0, terminating_signal = 0,
          peak_memory_kb = - 1 \<rparr>)) =
     (False,
      \<lparr> state = Running, signaled = False, exit_code = 0, terminating_signal = 0,
        peak_memory_kb = - 1 \<rparr>) \<and>
   Kill \<lparr> status = ChildTerminated (NormalExit 3), peak_kb = Some 512 \<rparr>
     \<lparr> state = Exited, signaled = False, exit_code = 3, terminating_signal = 0,
       peak_memory_kb = 512 \<rparr> =
     (False,
      \<lparr> state = Exited, signaled = False, exit_code = 3, terminating_signal = 0,
        peak_memory_kb = 512 \<rparr>) \<and>
   Kill \<lparr> status = ChildAlive None, peak_kb = None \<rparr>
     \<lparr> state = Unstarted, signaled = False, exit_code = 0, terminating_signal = 0,
       peak_memory_kb = - 1 \<rparr> =
     (False,
      \<lparr> state = Unstarted, signaled = False, exit_code = 0, terminating_signal = 0,
        peak_memory_kb = - 1 \<rparr>)"
  using
    Kill_return_value [of "\<lparr> status = ChildAlive None, peak_kb = None \<rparr>"
      "\<lparr> state = Running, signaled = False, exit_code = 0, terminating_signal = 0,
         peak_memory_kb = - 1 \<rparr>"
      "\<lparr> status = ChildTerminated KilledByRequest, peak_kb = None \<rparr>"]
    Kill_return_value [of "\<lparr> status = ChildAlive None, peak_kb = None \<rparr>"
      "\<lparr> state = Running, signaled = False, exit_code = 0, terminating_signal = 0,
         peak_memory_kb = - 1 \<rparr>"
      "\<lparr> status = ChildAlive None, peak_kb = None \<rparr>"]
    Kill_return_value [of "\<lparr> status = ChildTerminated (NormalExit 3), peak_kb = Some 512 \<rparr>"
      "\<lparr> state = Exited, signaled = False, exit_code = 3, terminating_signal = 0,
         peak_memory_kb = 512 \<rparr>"]
    Kill_return_value [of "\<lparr> status = ChildAlive None, peak_kb = None \<rparr>"
      "\<lparr> state = Unstarted, signaled = False, exit_code = 0, terminating_signal = 0,
         peak_memory_kb = - 1 \<rparr>"]
  by (simp add: agrees_def)

lemma state_SetSignaled: "state (SetSignaled h) = state h"
  by (simp add: SetSignaled_def)

lemma terminal_reap: "terminal (state (reap t mem h))"
  by (cases t) (simp_all add: SetSignaled_def)

lemma reap_transition: "transition Running (state (reap t mem h))"
  by (cases t) (simp_all add: SetSignaled_def)

lemma reap_mem:
  "peak_memory_kb (reap t mem h) = (case mem of Some m \<Rightarrow> m | None \<Rightarrow> - 1)"
  by (cases t) (simp_all add: SetSignaled_def)

lemma terminal_no_transition: "terminal s \<Longrightarrow> \<not> transition s s'"
  by (cases s; cases s') simp_all

lemma IsChildRunning_terminal: "terminal (state h) \<Longrightarrow> IsChildRunning v h = (False, h)"
  by (simp add: IsChildRunning_def terminal_not_Running)

lemma Wait_terminal: "terminal (state h) \<Longrightarrow> Wait p v h = Returns (False, h)"
  by (simp add: Wait_def)

lemma perform_terminal:
  "terminal (state h) \<Longrightarrow>
     \<exists>a. perform op v h = Returns (a, if op = OpSetSignaled then SetSignaled h else h)"
  by (cases op) (simp_all add: Kill_terminal IsChildRunning_terminal Wait_terminal)

lemma perform_terminal_same_answer:
  "terminal (state h) \<Longrightarrow> perform op v h = perform op v' h"
  by (cases op) (simp_all add: Kill_terminal IsChildRunning_terminal Wait_terminal)

lemma marked_Cons:
  "marked ((op, v) # rest) h = marked rest (if op = OpSetSignaled then SetSignaled h else h)"
  by (auto simp add: marked_def SetSignaled_def)

lemma marked_fields:
  "state (marked calls h) = state h \<and>
   ChildStatus (marked calls h) = exit_code h \<and>
   ChildMemKb (marked calls h) = peak_memory_kb h \<and>
   ChildTermSignal (marked calls h) = terminating_signal h \<and>
   IsSignaled (marked calls h) = (signaled h \<or> OpSetSignaled \<in> fst ` set calls)"
  by (simp add: marked_def SetSignaled_def ChildMemKb_def ChildStatus_def ChildTermSignal_def
      IsSignaled_def)

lemma perform_all_terminal:
  "terminal (state h) \<Longrightarrow> perform_all calls h = Returns (marked calls h)"
proof (induction calls arbitrary: h)
  case Nil
  then show ?case by (simp add: marked_def)
next
  case (Cons c calls)
  obtain op v where c: "c = (op, v)"
    by (cases c)
  let ?h = "if op = OpSetSignaled then SetSignaled h else h"
  from Cons.prems obtain a where step: "perform op v h = Returns (a, ?h)"
    using perform_terminal by blast
  from Cons.prems have "terminal (state ?h)"
    by (simp add: state_SetSignaled)
  then have "perform_all calls ?h = Returns (marked calls ?h)"
    by (rule Cons.IH)
  with step c show ?case
    by (simp add: marked_Cons)
qed

lemma Kill_state: "state (snd (Kill v h)) = state h"
  by (simp add: Kill_def)

lemma IsChildRunning_state:
  "state (snd (IsChildRunning v h)) = state h \<or>
   transition (state h) (state (snd (IsChildRunning v h)))"
  by (simp add: IsChildRunning_def reap_transition split: child_status.splits)

lemma Wait_state:
  "Wait p v h = Returns (b, h') \<Longrightarrow> state h' = state h \<or> transition (state h) (state h')"
  by (auto simp add: Wait_def reap_transition dest: started_Running
      split: if_splits child_status.splits WaitPolicy.splits option.splits)

lemma perform_state_machine:
  "perform op v h = Returns (a, h') \<Longrightarrow> state h' = state h \<or> transition (state h) (state h')"
proof (cases op)
  case OpKill
  assume "perform op v h = Returns (a, h')"
  with OpKill show ?thesis
    using Kill_state [of v h] by auto
next
  case (OpWait p)
  assume "perform op v h = Returns (a, h')"
  with OpWait obtain b where "Wait p v h = Returns (b, h')"
    by (auto split: outcome.splits)
  then show ?thesis
    by (rule Wait_state)
next
  case OpIsChildRunning
  assume "perform op v h = Returns (a, h')"
  with OpIsChildRunning show ?thesis
    using IsChildRunning_state [of v h] by auto
next
  case OpSetSignaled
  assume "perform op v h = Returns (a, h')"
  with OpSetSignaled show ?thesis
    by (auto simp add: SetSignaled_def)
qed auto

text \<open>
  C7. Once the handle is in a terminal state (Exited, Killed or Signaled) it stays
  there for ever. Any sequence of further calls (Kill, Wait with any policy,
  IsChildRunning, IsSignaled, SetSignaled, ChildStatus, ChildMemKb, ChildTermSignal),
  whatever the operating system reports at each of them, returns: none blocks. It leaves
  the handle as it is, but for the signaled mark when one of the calls is SetSignaled.
  Each call gives the same answer whatever the operating system reports, IsChildRunning
  answers false, and the queries return what the handle caches. No operation changes the
  state other than by a transition of the list, and the list has none out of a terminal
  state. What the handle caches is what was reaped: when IsChildRunning or Wait observes
  on a Running handle that the child has terminated, the handle becomes terminal, and
  from then on ChildMemKb is the reported peak memory (-1 if none), ChildStatus is the
  exit code of a normal exit, and ChildTermSignal is the signal and IsSignaled is true
  after an uncaught signal.
\<close>

theorem terminal_is_sticky:
  "(terminal (state h) \<longrightarrow>
      perform_all calls h = Returns (marked calls h) \<and>
      state (marked calls h) = state h \<and>
      perform op v h = perform op v' h \<and>
      IsChildRunning v h = (False, h) \<and>
      fst (IsChildRunning v (marked calls h)) = False \<and>
      Wait policy v h = Returns (False, h) \<and>
      Kill v h = (False, h) \<and>
      ChildStatus (marked calls h) = exit_code h \<and>
      ChildMemKb (marked calls h) = peak_memory_kb h \<and>
      ChildTermSignal (marked calls h) = terminating_signal h \<and>
      IsSignaled (marked calls h) = (signaled h \<or> OpSetSignaled \<in> fst ` set calls) \<and>
      \<not> transition (state h) s') \<and>
   (perform op v h = Returns (a, h') \<longrightarrow>
      state h' = state h \<or> transition (state h) (state h')) \<and>
   (state h0 = Running \<and> status v0 = ChildTerminated t \<longrightarrow>
      IsChildRunning v0 h0 = (False, reap t (peak_kb v0) h0) \<and>
      Wait policy v0 h0 = Returns (False, reap t (peak_kb v0) h0) \<and>
      terminal (state (reap t (peak_kb v0) h0)) \<and>
      perform_all calls (reap t (peak_kb v0) h0) =
        Returns (marked calls (reap t (peak_kb v0) h0)) \<and>
      ChildMemKb (marked calls (reap t (peak_kb v0) h0)) =
        (case peak_kb v0 of Some m \<Rightarrow> m | None \<Rightarrow> - 1) \<and>
      (\<forall>code. t = NormalExit code \<longrightarrow>
         ChildStatus (marked calls (reap t (peak_kb v0) h0)) = code \<and>
         state (marked calls (reap t (peak_kb v0) h0)) = Exited) \<and>
      (\<forall>sig. t = UncaughtSignal sig \<longrightarrow>
         ChildTermSignal (marked calls (reap t (peak_kb v0) h0)) = sig \<and>
         IsSignaled (marked calls (reap t (peak_kb v0) h0)) \<and>
         state (marked calls (reap t (peak_kb v0) h0)) = Signaled) \<and>
      (t = KilledByRequest \<longrightarrow> state (marked calls (reap t (peak_kb v0) h0)) = Killed))"
proof (intro conjI impI allI)
  assume fin: "terminal (state h)"
  show "perform_all calls h = Returns (marked calls h)"
    using fin by (rule perform_all_terminal)
  show "perform op v h = perform op v' h"
    using fin by (rule perform_terminal_same_answer)
  show "IsChildRunning v h = (False, h)"
    using fin by (rule IsChildRunning_terminal)
  have "terminal (state (marked calls h))"
    using fin by (simp add: marked_fields)
  then show "fst (IsChildRunning v (marked calls h)) = False"
    by (simp add: IsChildRunning_terminal)
  show "Wait policy v h = Returns (False, h)"
    using fin by (rule Wait_terminal)
  show "Kill v h = (False, h)"
    using fin by (rule Kill_terminal)
  show "\<not> transition (state h) s'"
    using fin by (rule terminal_no_transition)
next
  show "state (marked calls h) = state h"
    and "ChildStatus (marked calls h) = exit_code h"
    and "ChildMemKb (marked calls h) = peak_memory_kb h"
    and "ChildTermSignal (marked calls h) = terminating_signal h"
    and "IsSignaled (marked calls h) = (signaled h \<or> OpSetSignaled \<in> fst ` set calls)"
    by (simp_all add: marked_fields)
next
  assume "perform op v h = Returns (a, h')"
  then show "state h' = state h \<or> transition (state h) (state h')"
    by (rule perform_state_machine)
next
  assume obs: "state h0 = Running \<and> status v0 = ChildTerminated t"
  let ?h = "reap t (peak_kb v0) h0"
  show "IsChildRunning v0 h0 = (False, ?h)"
    using obs by (simp add: IsChildRunning_def)
  show "Wait policy v0 h0 = Returns (False, ?h)"
    using obs by (simp add: Wait_def)
  show "terminal (state ?h)"
    by (rule terminal_reap)
  then show "perform_all calls ?h = Returns (marked calls ?h)"
    by (rule perform_all_terminal)
  show "ChildMemKb (marked calls ?h) = (case peak_kb v0 of Some m \<Rightarrow> m | None \<Rightarrow> - 1)"
    by (simp add: marked_fields reap_mem)
next
  fix code
  assume "t = NormalExit code"
  then show "ChildStatus (marked calls (reap t (peak_kb v0) h0)) = code"
    and "state (marked calls (reap t (peak_kb v0) h0)) = Exited"
    by (simp_all add: marked_fields)
next
  fix sig
  assume "t = UncaughtSignal sig"
  then show "ChildTermSignal (marked calls (reap t (peak_kb v0) h0)) = sig"
    and "IsSignaled (marked calls (reap t (peak_kb v0) h0))"
    and "state (marked calls (reap t (peak_kb v0) h0)) = Signaled"
    by (simp_all add: marked_fields SetSignaled_def)
next
  assume "t = KilledByRequest"
  then show "state (marked calls (reap t (peak_kb v0) h0)) = Killed"
    by (simp add: marked_fields)
qed

theorem terminal_is_sticky_witness:
  "IsChildRunning \<lparr> status = ChildTerminated (NormalExit 3), peak_kb = Some 512 \<rparr>
     \<lparr> state = Running, signaled = False, exit_code = 0, terminating_signal = 0,
       peak_memory_kb = - 1 \<rparr> =
     (False,
      \<lparr> state = Exited, signaled = False, exit_code = 3, terminating_signal = 0,
        peak_memory_kb = 512 \<rparr>) \<and>
   terminal Exited \<and>
   perform_all
     [(OpWait WAIT_INFINITE, \<lparr> status = ChildAlive None, peak_kb = None \<rparr>),
      (OpKill, \<lparr> status = ChildAlive None, peak_kb = None \<rparr>),
      (OpIsChildRunning, \<lparr> status = ChildAlive None, peak_kb = None \<rparr>),
      (OpChildMemKb, \<lparr> status = ChildTerminated (UncaughtSignal 9), peak_kb = Some 7 \<rparr>)]
     \<lparr> state = Exited, signaled = False, exit_code = 3, terminating_signal = 0,
       peak_memory_kb = 512 \<rparr> =
     Returns
       \<lparr> state = Exited, signaled = False, exit_code = 3, terminating_signal = 0,
         peak_memory_kb = 512 \<rparr> \<and>
   perform OpChildStatus \<lparr> status = ChildAlive None, peak_kb = None \<rparr>
     \<lparr> state = Exited, signaled = False, exit_code = 3, terminating_signal = 0,
       peak_memory_kb = 512 \<rparr> =
     Returns
       (IntAnswer 3,
        \<lparr> state = Exited, signaled = False, exit_code = 3, terminating_signal = 0,
          peak_memory_kb = 512 \<rparr>)"
proof -
  let ?running =
    "\<lparr> state = Running, signaled = False, exit_code = 0, terminating_signal = 0,
       peak_memory_kb = - 1 \<rparr>"
  let ?exited =
    "\<lparr> state = Exited, signaled = False, exit_code = 3, terminating_signal = 0,
       peak_memory_kb = 512 \<rparr>"
  let ?gone = "\<lparr> status = ChildTerminated (NormalExit 3), peak_kb = Some 512 \<rparr>"
  let ?alive = "\<lparr> status = ChildAlive None, peak_kb = None \<rparr>"
  let ?calls =
    "[(OpWait WAIT_INFINITE, ?alive), (OpKill, ?alive), (OpIsChildRunning, ?alive),
      (OpChildMemKb, \<lparr> status = ChildTerminated (UncaughtSignal 9), peak_kb = Some 7 \<rparr>)]"
  from terminal_is_sticky
    [where h = ?exited and calls = ?calls and op = OpChildStatus and v = ?alive
      and h0 = ?running and v0 = ?gone and t = "NormalExit 3"]
  show ?thesis
    by (simp add: marked_def ChildStatus_def)
qed

end
